theory Spec2Isabelle
  imports Main
begin

section \<open>The SCA scan runner (xray/commands/audit/scarunner.go)\<close>

text \<open>
  The runner orchestrates dependency scans: it works out which (technology, directory)
  units to scan, builds each unit's dependency tree through a per-technology builder,
  sends the flattened tree to the scan backend and collects the results.

  Everything the runner calls outside scarunner.go (the operating system, the technology
  detector, the tree builders, the scan backend, the configuration readers, the JSON
  encoder) is a field of an environment record \<open>Env\<close>: the theorems hold for every
  environment. Calls that can change the outside world take a \<open>World\<close> and return the
  new one. Log output and the progress bar are write-only and are left out.
\<close>

subsection \<open>Errors\<close>

text \<open>
  A Go \<open>error\<close> is either a message or the value built by \<open>errors.Join\<close>, which keeps
  the list of the errors it wraps; \<open>nil\<close> is \<open>None\<close>.
\<close>

datatype error = ErrorString string | JoinError "error list"

fun join_lines :: "string list \<Rightarrow> string" where
  "join_lines [] = []"
| "join_lines [l] = l"
| "join_lines (l # m # ls) = l @ [CHR 0x0A] @ join_lines (m # ls)"

fun Error_msg :: "error \<Rightarrow> string" where
  "Error_msg (ErrorString s) = s"
| "Error_msg (JoinError es) = join_lines (map Error_msg es)"

text \<open>\<open>errors.Join\<close> discards nil values and returns nil when nothing is left.\<close>

definition errors_Join :: "error option list \<Rightarrow> error option" where
  "errors_Join errs =
     (let es = concat (map (\<lambda>e. case e of None \<Rightarrow> [] | Some x \<Rightarrow> [x]) errs)
      in if es = [] then None else Some (JoinError es))"

subsection \<open>Data\<close>

text \<open>
  \<open>coreutils.Technology\<close> is a string type with named constants; a value that is none
  of the constants the runner names is \<open>OtherTech\<close>.
\<close>

datatype Technology =
  Maven | Gradle | Npm | Yarn | Go | Pip | Pipenv | Poetry | Nuget | Dotnet
  | OtherTech string

datatype ProjectType =
  project_Maven | project_Gradle | project_Npm | project_Yarn | project_Go | project_Pip
  | project_Pipenv | project_Poetry | project_Nuget | project_Dotnet

datatype GraphNode = GraphNode (NodeId: string) (Nodes: "GraphNode list")

type_synonym ServerDetails = string
type_synonym ScanResponse = string

record ScaScanResult =
  WorkingDirectory :: string
  Technology :: Technology
  Descriptors :: "string list"
  IsMultipleRootProject :: "bool option"
  XrayResults :: "ScanResponse list"

text \<open>
  \<open>AuditParams\<close>: the fields behind the accessors the runner calls. \<open>ServerDetails()\<close>
  returns a pair (details, error), so the field holds a sum.
\<close>

record AuditParams =
  workingDirs :: "string list"
  Technologies :: "string list"
  PipRequirementsFile :: string
  Exclusions :: "string list"
  DepsRepo :: string
  IgnoreConfigFile :: bool
  params_ServerDetails :: "error + ServerDetails"
  thirdPartyApplicabilityScan :: bool
  xrayGraphScanParams :: string
  xrayVersion :: string
  fixableOnly :: bool
  minSeverityFilter :: string
  DependenciesForApplicabilityScan :: "string list"

record RepoConfig =
  repo_ServerDetails :: "error + ServerDetails"
  TargetRepo :: string

record AuditPython =
  Server :: ServerDetails
  Tool :: Technology
  RemotePypiRepo :: string
  python_PipRequirementsFile :: string

record ScanGraphParams =
  sgp_ServerDetails :: ServerDetails
  sgp_XrayGraphScanParams :: string
  sgp_XrayVersion :: string
  sgp_FixableOnly :: bool
  sgp_SeverityLevel :: string

text \<open>The process state: the current working directory and everything else outside.\<close>

record 'x World =
  cwd :: string
  ext :: 'x

type_synonym BuildResult = "GraphNode list \<times> string list \<times> error option"

text \<open>
  A Go map is an association list in the order in which this run iterates over it (Go
  leaves that order open); its keys are distinct.
\<close>

type_synonym TechToWorkingDirs = "(Technology \<times> (string \<times> string list) list) list"

record 'x Env =
  Getwd_err :: "'x World \<Rightarrow> error option"
  Chdir_err :: "string \<Rightarrow> 'x World \<Rightarrow> error option"
  CheckError_wrap :: "error \<Rightarrow> error"
  Technology_String :: "Technology \<Rightarrow> string"
  ProjectType_zero :: ProjectType
  Set_order :: "'x World \<Rightarrow> string \<Rightarrow> nat"
  DetectTechnologiesDescriptors ::
    "string \<Rightarrow> bool \<Rightarrow> string list \<Rightarrow> (Technology \<times> string list) list \<Rightarrow> string
       \<Rightarrow> 'x World \<Rightarrow> error + TechToWorkingDirs"
  PrepareExcludePathPattern :: "string list \<Rightarrow> bool \<Rightarrow> string"
  GetJsonIndent :: "ScaScanResult list \<Rightarrow> error + string"
  java_BuildDependencyTree :: "AuditParams \<Rightarrow> Technology \<Rightarrow> 'x World \<Rightarrow> BuildResult \<times> 'x World"
  npm_BuildDependencyTree :: "AuditParams \<Rightarrow> 'x World \<Rightarrow> BuildResult \<times> 'x World"
  yarn_BuildDependencyTree :: "AuditParams \<Rightarrow> 'x World \<Rightarrow> BuildResult \<times> 'x World"
  go_BuildDependencyTree :: "AuditParams \<Rightarrow> 'x World \<Rightarrow> BuildResult \<times> 'x World"
  python_BuildDependencyTree :: "AuditPython \<Rightarrow> 'x World \<Rightarrow> BuildResult \<times> 'x World"
  nuget_BuildDependencyTree :: "AuditParams \<Rightarrow> 'x World \<Rightarrow> BuildResult \<times> 'x World"
  RunXrayDependenciesTreeScanGraph ::
    "GraphNode \<Rightarrow> Technology \<Rightarrow> ScanGraphParams \<Rightarrow> 'x World
       \<Rightarrow> (error + ScanResponse list) \<times> 'x World"
  BuildImpactPathsForScanResponse :: "ScanResponse list \<Rightarrow> GraphNode list \<Rightarrow> ScanResponse list"
  GetProjectConfFilePath :: "ProjectType \<Rightarrow> 'x World \<Rightarrow> string \<times> bool \<times> error option"
  ReadResolutionOnlyConfiguration :: "string \<Rightarrow> 'x World \<Rightarrow> error + RepoConfig"
  logLevel_DEBUG :: bool
  json_Marshal :: "string list \<Rightarrow> error + string"

subsection \<open>Library pieces\<close>

definition os_Getwd :: "'x Env \<Rightarrow> 'x World \<Rightarrow> error + string" where
  "os_Getwd env w = (case Getwd_err env w of Some e \<Rightarrow> Inl e | None \<Rightarrow> Inr (cwd w))"

text \<open>\<open>os.Chdir\<close>: when it succeeds the working directory is the one asked for.\<close>

definition os_Chdir :: "'x Env \<Rightarrow> string \<Rightarrow> 'x World \<Rightarrow> error option \<times> 'x World" where
  "os_Chdir env dir w =
     (case Chdir_err env dir w of
        Some e \<Rightarrow> (Some e, w)
      | None \<Rightarrow> (None, w\<lparr>cwd := dir\<rparr>))"

text \<open>
  \<open>errorutils.CheckError\<close> returns nil for nil and otherwise an error made from the one
  it is given; \<open>CheckErrorf\<close> applies it to a new message.
\<close>

definition errorutils_CheckError :: "'x Env \<Rightarrow> error option \<Rightarrow> error option" where
  "errorutils_CheckError env err = map_option (CheckError_wrap env) err"

definition errorutils_CheckErrorf :: "'x Env \<Rightarrow> string \<Rightarrow> error" where
  "errorutils_CheckErrorf env msg = CheckError_wrap env (ErrorString msg)"

text \<open>
  \<open>datastructures.Set\<close> is a hash set: \<open>Add\<close> keeps one copy of each element, and
  \<open>ToSlice\<close> lists the elements in the map's iteration order, which is any order. That
  order is given by a ranking of the elements; every permutation is the order of some
  ranking.
\<close>

definition Set_Add :: "'a \<Rightarrow> 'a list \<Rightarrow> 'a list" where
  "Set_Add x s = (if x \<in> set s then s else s @ [x])"

definition Set_ToSlice :: "('a \<Rightarrow> nat) \<Rightarrow> 'a list \<Rightarrow> 'a list" where
  "Set_ToSlice rank s = sort_key rank s"

definition quoted :: "string \<Rightarrow> string" where
  "quoted s = [CHR 0x27] @ s @ [CHR 0x27]"

subsection \<open>Scheduling the scans\<close>

definition DefaultExcludePatterns :: "string list" where
  "DefaultExcludePatterns = [''*.git*'', ''*node_modules*'', ''*target*'', ''*venv*'', ''*test*'']"

definition getRequestedDescriptors :: "AuditParams \<Rightarrow> (Technology \<times> string list) list" where
  "getRequestedDescriptors params =
     (if PipRequirementsFile params \<noteq> [] then [(Pip, [PipRequirementsFile params])] else [])"

definition getExcludePattern :: "'x Env \<Rightarrow> AuditParams \<Rightarrow> bool \<Rightarrow> string" where
  "getExcludePattern env params recursive =
     (let exclusions = Exclusions params;
          exclusions = (if length exclusions = 0 then exclusions @ DefaultExcludePatterns
                        else exclusions)
      in PrepareExcludePathPattern env exclusions recursive)"

definition getRequestedDirectoriesToScan ::
  "'x Env \<Rightarrow> string \<Rightarrow> AuditParams \<Rightarrow> 'x World \<Rightarrow> string list \<times> bool" where
  "getRequestedDirectoriesToScan env currentWorkingDir params w =
     (let wds = foldl (\<lambda>s wd. Set_Add wd s) [] (workingDirs params)
      in if length (workingDirs params) = 0 then ([currentWorkingDir], True)
         else (Set_ToSlice (Set_order env w) wds, False))"

text \<open>The loop over the working directories detected for one technology (lines 94-97).\<close>

definition scansOfWorkingDirs :: "Technology \<Rightarrow> (string \<times> string list) list \<Rightarrow> ScaScanResult list" where
  "scansOfWorkingDirs tech wdirs =
     map (\<lambda>(workingDir, descriptors).
            \<lparr>WorkingDirectory = workingDir, Technology = tech, Descriptors = descriptors,
             IsMultipleRootProject = None, XrayResults = []\<rparr>) wdirs"

text \<open>The loop over the detected technologies of one requested directory (lines 84-98).\<close>

fun scansOfTechs :: "string \<Rightarrow> TechToWorkingDirs \<Rightarrow> ScaScanResult list" where
  "scansOfTechs requestedDirectory [] = []"
| "scansOfTechs requestedDirectory ((tech, wdirs) # rest) =
     (if tech = Dotnet then scansOfTechs requestedDirectory rest
      else (if length wdirs = 0
            then [\<lparr>WorkingDirectory = requestedDirectory, Technology = tech, Descriptors = [],
                   IsMultipleRootProject = None, XrayResults = []\<rparr>]
            else [])
           @ scansOfWorkingDirs tech wdirs
           @ scansOfTechs requestedDirectory rest)"

text \<open>The loop over the requested directories (lines 76-99).\<close>

fun scansOfDirectories ::
  "'x Env \<Rightarrow> AuditParams \<Rightarrow> bool \<Rightarrow> 'x World \<Rightarrow> string list \<Rightarrow> ScaScanResult list" where
  "scansOfDirectories env params isRecursive w [] = []"
| "scansOfDirectories env params isRecursive w (requestedDirectory # rest) =
     (case DetectTechnologiesDescriptors env requestedDirectory isRecursive (Technologies params)
             (getRequestedDescriptors params) (getExcludePattern env params isRecursive) w of
        Inl err \<Rightarrow> scansOfDirectories env params isRecursive w rest
      | Inr techToWorkingDirs \<Rightarrow>
          scansOfTechs requestedDirectory techToWorkingDirs
          @ scansOfDirectories env params isRecursive w rest)"

definition getScaScansToPreform ::
  "'x Env \<Rightarrow> string \<Rightarrow> AuditParams \<Rightarrow> 'x World \<Rightarrow> ScaScanResult list" where
  "getScaScansToPreform env currentWorkingDir params w =
     (case getRequestedDirectoriesToScan env currentWorkingDir params w of
        (requestedDirectories, isRecursive) \<Rightarrow>
          scansOfDirectories env params isRecursive w requestedDirectories)"

subsection \<open>Resolution repository\<close>

definition techType :: "(Technology \<times> ProjectType) list" where
  "techType =
     [(Maven, project_Maven), (Gradle, project_Gradle), (Npm, project_Npm), (Yarn, project_Yarn),
      (Go, project_Go), (Pip, project_Pip), (Pipenv, project_Pipenv), (Poetry, project_Poetry),
      (Nuget, project_Nuget), (Dotnet, project_Dotnet)]"

text \<open>Reading a Go map at a key it does not hold gives the zero value of the value type.\<close>

definition techType_at :: "'x Env \<Rightarrow> Technology \<Rightarrow> ProjectType" where
  "techType_at env tech =
     (case map_of techType tech of Some t \<Rightarrow> t | None \<Rightarrow> ProjectType_zero env)"

text \<open>
  Reading the configuration file that was found and storing what it holds (lines
  283-296); both the technology's own file and, for Nuget, the Dotnet one lead here.
\<close>

definition useResolverConfig ::
  "'x Env \<Rightarrow> AuditParams \<Rightarrow> Technology \<Rightarrow> string \<Rightarrow> 'x World \<Rightarrow> error option \<times> AuditParams" where
  "useResolverConfig env params tech configFilePath w =
     (case ReadResolutionOnlyConfiguration env configFilePath w of
        Inl err \<Rightarrow>
          (Some (ErrorString (''failed while reading '' @ Technology_String env tech
                   @ ''.yaml config file: '' @ Error_msg err)), params)
      | Inr repoConfig \<Rightarrow>
          (case repo_ServerDetails repoConfig of
             Inl err \<Rightarrow>
               (Some (ErrorString (''failed getting server details: '' @ Error_msg err)), params)
           | Inr details \<Rightarrow>
               (None, params\<lparr>params_ServerDetails := Inr details,
                              DepsRepo := TargetRepo repoConfig\<rparr>)))"

definition searchError :: "'x Env \<Rightarrow> Technology \<Rightarrow> error \<Rightarrow> error" where
  "searchError env tech err =
     ErrorString (''failed while searching for '' @ Technology_String env tech
        @ ''.yaml config file: '' @ Error_msg err)"

text \<open>
  The search for the configuration file (lines 259-281): an error, no file (\<open>None\<close>),
  or the path of the file to use.
\<close>

definition findResolverConfig :: "'x Env \<Rightarrow> Technology \<Rightarrow> 'x World \<Rightarrow> error + string option" where
  "findResolverConfig env tech w =
     (case GetProjectConfFilePath env (techType_at env tech) w of
        (configFilePath, exists, err) \<Rightarrow>
          (case err of
             Some e \<Rightarrow> Inl (searchError env tech e)
           | None \<Rightarrow>
               if \<not> exists then
                 (if tech = Nuget then
                    (case GetProjectConfFilePath env (techType_at env Dotnet) w of
                       (configFilePath, exists, err) \<Rightarrow>
                         (case err of
                            Some e \<Rightarrow> Inl (searchError env tech e)
                          | None \<Rightarrow> if \<not> exists then Inr None else Inr (Some configFilePath)))
                  else Inr None)
               else Inr (Some configFilePath)))"

definition SetResolutionRepoIfExists ::
  "'x Env \<Rightarrow> AuditParams \<Rightarrow> Technology \<Rightarrow> 'x World \<Rightarrow> error option \<times> AuditParams" where
  "SetResolutionRepoIfExists env params tech w =
     (if DepsRepo params \<noteq> [] \<or> IgnoreConfigFile params then (None, params)
      else
        (case findResolverConfig env tech w of
           Inl err \<Rightarrow> (Some err, params)
         | Inr None \<Rightarrow> (None, params)
         | Inr (Some configFilePath) \<Rightarrow> useResolverConfig env params tech configFilePath w))"

subsection \<open>Building and flattening the dependency tree\<close>

definition createFlatTree :: "'x Env \<Rightarrow> string list \<Rightarrow> error + GraphNode" where
  "createFlatTree env uniqueDeps =
     (case (if logLevel_DEBUG env
            then (case json_Marshal env uniqueDeps of Inl err \<Rightarrow> Some err | Inr jsonList \<Rightarrow> None)
            else None) of
        Some err \<Rightarrow> Inl err
      | None \<Rightarrow>
          Inr (GraphNode ''root'' (map (\<lambda>uniqueDep. GraphNode uniqueDep []) uniqueDeps)))"

text \<open>The \<open>switch tech\<close> of \<open>GetTechDependencyTree\<close> (lines 218-237).\<close>

definition buildDependencyTree ::
  "'x Env \<Rightarrow> AuditParams \<Rightarrow> ServerDetails \<Rightarrow> Technology \<Rightarrow> 'x World \<Rightarrow> BuildResult \<times> 'x World" where
  "buildDependencyTree env params serverDetails tech w =
     (if tech = Maven \<or> tech = Gradle then java_BuildDependencyTree env params tech w
      else if tech = Npm then npm_BuildDependencyTree env params w
      else if tech = Yarn then yarn_BuildDependencyTree env params w
      else if tech = Go then go_BuildDependencyTree env params w
      else if tech = Pipenv \<or> tech = Pip \<or> tech = Poetry then
        python_BuildDependencyTree env
          \<lparr>Server = serverDetails, Tool = tech, RemotePypiRepo = DepsRepo params,
           python_PipRequirementsFile = PipRequirementsFile params\<rparr> w
      else if tech = Nuget then nuget_BuildDependencyTree env params w
      else (([], [], Some (errorutils_CheckErrorf env
                (Technology_String env tech @ '' is currently not supported''))), w))"

text \<open>
  \<open>GetTechDependencyTree\<close> returns the flat tree (\<open>None\<close> is the nil pointer), the full
  trees and the error, and leaves the parameters as the resolver set them.
\<close>

definition GetTechDependencyTree ::
  "'x Env \<Rightarrow> AuditParams \<Rightarrow> Technology \<Rightarrow> 'x World
     \<Rightarrow> GraphNode option \<times> GraphNode list \<times> error option \<times> AuditParams \<times> 'x World" where
  "GetTechDependencyTree env params tech w =
     (case params_ServerDetails params of
        Inl err \<Rightarrow> (None, [], Some err, params, w)
      | Inr serverDetails \<Rightarrow>
          (case SetResolutionRepoIfExists env params tech w of
             (Some err, params1) \<Rightarrow> (None, [], Some err, params1, w)
           | (None, params1) \<Rightarrow>
               (case buildDependencyTree env params1 serverDetails tech w of
                  ((fullDependencyTrees, uniqueDeps, err), w1) \<Rightarrow>
                    if err \<noteq> None \<or> length uniqueDeps = 0
                    then (None, fullDependencyTrees, err, params1, w1)
                    else (case createFlatTree env uniqueDeps of
                            Inl e \<Rightarrow> (None, fullDependencyTrees, Some e, params1, w1)
                          | Inr flatTree \<Rightarrow>
                              (Some flatTree, fullDependencyTrees, None, params1, w1)))))"

subsection \<open>Scanning one unit\<close>

definition runScaWithTech ::
  "'x Env \<Rightarrow> Technology \<Rightarrow> AuditParams \<Rightarrow> ServerDetails \<Rightarrow> GraphNode \<Rightarrow> GraphNode list
     \<Rightarrow> 'x World \<Rightarrow> (error + ScanResponse list) \<times> 'x World" where
  "runScaWithTech env tech params serverDetails flatTree fullDependencyTrees w =
     (let scanGraphParams =
            \<lparr>sgp_ServerDetails = serverDetails,
             sgp_XrayGraphScanParams = xrayGraphScanParams params,
             sgp_XrayVersion = xrayVersion params,
             sgp_FixableOnly = fixableOnly params,
             sgp_SeverityLevel = minSeverityFilter params\<rparr>
      in case RunXrayDependenciesTreeScanGraph env flatTree tech scanGraphParams w of
           (Inl err, w1) \<Rightarrow> (Inl err, w1)
         | (Inr techResults, w1) \<Rightarrow>
             (Inr (BuildImpactPathsForScanResponse env techResults fullDependencyTrees), w1))"

definition shouldUseAllDependencies :: "bool \<Rightarrow> Technology \<Rightarrow> bool" where
  "shouldUseAllDependencies thirdParty tech = (tech = Pip \<or> (thirdParty \<and> tech = Npm))"

definition getDirectDependenciesFromTree :: "(string \<Rightarrow> nat) \<Rightarrow> GraphNode list \<Rightarrow> string list" where
  "getDirectDependenciesFromTree rank dependencyTrees =
     Set_ToSlice rank
       (foldl (\<lambda>s tree. foldl (\<lambda>s node. Set_Add (NodeId node) s) s (Nodes tree))
          [] dependencyTrees)"

definition AppendDependenciesForApplicabilityScan :: "string list \<Rightarrow> AuditParams \<Rightarrow> AuditParams" where
  "AppendDependenciesForApplicabilityScan directDependencies params =
     params\<lparr>DependenciesForApplicabilityScan :=
              DependenciesForApplicabilityScan params @ directDependencies\<rparr>"

definition addThirdPartyDependenciesToParams ::
  "'x Env \<Rightarrow> AuditParams \<Rightarrow> Technology \<Rightarrow> GraphNode \<Rightarrow> GraphNode list \<Rightarrow> 'x World \<Rightarrow> AuditParams" where
  "addThirdPartyDependenciesToParams env params tech flatTree fullDependencyTrees w =
     (let dependenciesForApplicabilityScan =
            (if shouldUseAllDependencies (thirdPartyApplicabilityScan params) tech
             then getDirectDependenciesFromTree (Set_order env w) [flatTree]
             else getDirectDependenciesFromTree (Set_order env w) fullDependencyTrees)
      in AppendDependenciesForApplicabilityScan dependenciesForApplicabilityScan params)"

definition noDependenciesMsg :: string where
  "noDependenciesMsg =
     ''no dependencies were found. Please try to build your project and re-run the audit command''"

definition treeBuildError :: "'x Env \<Rightarrow> Technology \<Rightarrow> error \<Rightarrow> error" where
  "treeBuildError env tech techErr =
     ErrorString (''failed while building '' @ quoted (Technology_String env tech)
        @ '' dependency tree:'' @ [CHR 0x0A] @ Error_msg techErr)"

definition xrayScanError :: "'x Env \<Rightarrow> Technology \<Rightarrow> error \<Rightarrow> error" where
  "xrayScanError env tech xrayErr =
     ErrorString (quoted (Technology_String env tech)
        @ '' Xray dependency tree scan request failed:'' @ [CHR 0x0A] @ Error_msg xrayErr)"

text \<open>
  \<open>executeScaScan\<close> returns its error together with the scan unit, the parameters and
  the world as it leaves them.
\<close>

definition executeScaScan ::
  "'x Env \<Rightarrow> ServerDetails \<Rightarrow> AuditParams \<Rightarrow> ScaScanResult \<Rightarrow> 'x World
     \<Rightarrow> error option \<times> ScaScanResult \<times> AuditParams \<times> 'x World" where
  "executeScaScan env serverDetails params scan w =
     (case os_Chdir env (WorkingDirectory scan) w of
        (Some err, w1) \<Rightarrow> (errorutils_CheckError env (Some err), scan, params, w1)
      | (None, w1) \<Rightarrow>
          (case GetTechDependencyTree env params (Technology scan) w1 of
             (flattenTree, fullDependencyTrees, techErr, params1, w2) \<Rightarrow>
               (case techErr of
                  Some e \<Rightarrow> (Some (treeBuildError env (Technology scan) e), scan, params1, w2)
                | None \<Rightarrow>
                    (case flattenTree of
                       None \<Rightarrow>
                         (Some (errorutils_CheckErrorf env noDependenciesMsg), scan, params1, w2)
                     | Some flatTree \<Rightarrow>
                         if length (Nodes flatTree) = 0
                         then (Some (errorutils_CheckErrorf env noDependenciesMsg),
                               scan, params1, w2)
                         else
                           (case runScaWithTech env (Technology scan) params1 serverDetails
                                   flatTree fullDependencyTrees w2 of
                              (Inl xrayErr, w3) \<Rightarrow>
                                (Some (xrayScanError env (Technology scan) xrayErr),
                                 scan, params1, w3)
                            | (Inr scanResults, w3) \<Rightarrow>
                                (None,
                                 scan\<lparr>IsMultipleRootProject :=
                                        Some (length fullDependencyTrees > 1),
                                      XrayResults := XrayResults scan @ scanResults\<rparr>,
                                 addThirdPartyDependenciesToParams env params1 (Technology scan)
                                   flatTree fullDependencyTrees w3,
                                 w3))))))"

subsection \<open>The orchestrator\<close>

definition auditFailedError :: "ScaScanResult \<Rightarrow> error \<Rightarrow> error" where
  "auditFailedError scan wdScanErr =
     ErrorString (''audit command in '' @ quoted (WorkingDirectory scan) @ '' failed:''
        @ [CHR 0x0A] @ Error_msg wdScanErr)"

text \<open>
  The scan loop (lines 60-69), on the error accumulated so far, the results collection,
  the parameters and the world.
\<close>

fun runScaScan_loop ::
  "'x Env \<Rightarrow> ServerDetails \<Rightarrow> ScaScanResult list
     \<Rightarrow> error option \<times> ScaScanResult list \<times> AuditParams \<times> 'x World
     \<Rightarrow> error option \<times> ScaScanResult list \<times> AuditParams \<times> 'x World" where
  "runScaScan_loop env serverDetails [] st = st"
| "runScaScan_loop env serverDetails (scan # scans) (err, results, params, w) =
     (case executeScaScan env serverDetails params scan w of
        (Some wdScanErr, scan1, params1, w1) \<Rightarrow>
          runScaScan_loop env serverDetails scans
            (errors_Join [err, Some (auditFailedError scan wdScanErr)], results, params1, w1)
      | (None, scan1, params1, w1) \<Rightarrow>
          runScaScan_loop env serverDetails scans (err, results @ [scan1], params1, w1))"

text \<open>
  \<open>runScaScan\<close>: the deferred function runs after the loop, joining the result of the
  restoring \<open>os.Chdir\<close> into the returned error.
\<close>

definition runScaScan ::
  "'x Env \<Rightarrow> AuditParams \<Rightarrow> ScaScanResult list \<Rightarrow> 'x World
     \<Rightarrow> error option \<times> ScaScanResult list \<times> AuditParams \<times> 'x World" where
  "runScaScan env params results w =
     (case os_Getwd env w of
        Inl err \<Rightarrow> (Some err, results, params, w)
      | Inr currentWorkingDir \<Rightarrow>
          (case params_ServerDetails params of
             Inl err \<Rightarrow> (Some err, results, params, w)
           | Inr serverDetails \<Rightarrow>
               (let scans = getScaScansToPreform env currentWorkingDir params w
                in if length scans = 0 then (None, results, params, w)
                   else
                     (case GetJsonIndent env scans of
                        Inl err \<Rightarrow> (Some err, results, params, w)
                      | Inr scanInfo \<Rightarrow>
                          (case runScaScan_loop env serverDetails scans
                                  (None, results, params, w) of
                             (err, results1, params1, w1) \<Rightarrow>
                               (case os_Chdir env currentWorkingDir w1 of
                                  (chdirErr, w2) \<Rightarrow>
                                    (errors_Join [err, chdirErr], results1, params1, w2)))))))"

subsection \<open>What a run of the loop is measured against\<close>

text \<open>
  Every scheduled unit executed in turn, each on the parameters and the world the one
  before it left, whatever the outcomes: for each unit the unit as scheduled, the error of
  its scan and the unit as the scan left it; then the parameters and the world after the
  last unit.
\<close>

type_synonym UnitOutcome = "ScaScanResult \<times> error option \<times> ScaScanResult"

fun unitOutcomes ::
  "'x Env \<Rightarrow> ServerDetails \<Rightarrow> ScaScanResult list \<Rightarrow> AuditParams \<Rightarrow> 'x World
     \<Rightarrow> UnitOutcome list \<times> AuditParams \<times> 'x World" where
  "unitOutcomes env serverDetails [] params w = ([], params, w)"
| "unitOutcomes env serverDetails (scan # scans) params w =
     (case executeScaScan env serverDetails params scan w of
        (e, scan1, params1, w1) \<Rightarrow>
          (case unitOutcomes env serverDetails scans params1 w1 of
             (outcomes, paramsN, wN) \<Rightarrow> ((scan, e, scan1) # outcomes, paramsN, wN)))"

fun succeededUnits :: "UnitOutcome list \<Rightarrow> ScaScanResult list" where
  "succeededUnits [] = []"
| "succeededUnits ((scan, None, scan1) # outcomes) = scan1 # succeededUnits outcomes"
| "succeededUnits ((scan, Some e, scan1) # outcomes) = succeededUnits outcomes"

fun failedUnitErrors :: "UnitOutcome list \<Rightarrow> error list" where
  "failedUnitErrors [] = []"
| "failedUnitErrors ((scan, None, scan1) # outcomes) = failedUnitErrors outcomes"
| "failedUnitErrors ((scan, Some e, scan1) # outcomes) =
     auditFailedError scan e # failedUnitErrors outcomes"

text \<open>The errors an aggregate error is made of, through every level of joining.\<close>

fun error_leaves :: "error \<Rightarrow> error list" where
  "error_leaves (ErrorString s) = [ErrorString s]"
| "error_leaves (JoinError es) = concat (map error_leaves es)"

definition joinedErrors :: "error option \<Rightarrow> error list" where
  "joinedErrors err = (case err of None \<Rightarrow> [] | Some e \<Rightarrow> error_leaves e)"

subsection \<open>A concrete project\<close>

text \<open>
  A checkout at /repo with a Go module whose build fails and an npm package with two
  dependencies; no resolver configuration files.
\<close>

fun demo_Technology_String :: "Technology \<Rightarrow> string" where
  "demo_Technology_String Maven = ''maven''"
| "demo_Technology_String Gradle = ''gradle''"
| "demo_Technology_String Npm = ''npm''"
| "demo_Technology_String Yarn = ''yarn''"
| "demo_Technology_String Go = ''go''"
| "demo_Technology_String Pip = ''pip''"
| "demo_Technology_String Pipenv = ''pipenv''"
| "demo_Technology_String Poetry = ''poetry''"
| "demo_Technology_String Nuget = ''nuget''"
| "demo_Technology_String Dotnet = ''dotnet''"
| "demo_Technology_String (OtherTech s) = s"

definition demoNpmTree :: GraphNode where
  "demoNpmTree = GraphNode ''app'' [GraphNode ''pkg:a@1'' [GraphNode ''pkg:b@2'' []]]"

definition demoEnv :: "unit Env" where
  "demoEnv =
     \<lparr>Getwd_err = (\<lambda>w. None),
      Chdir_err = (\<lambda>dir w. None),
      CheckError_wrap = (\<lambda>e. e),
      Technology_String = demo_Technology_String,
      ProjectType_zero = project_Go,
      Set_order = (\<lambda>w s. length s),
      DetectTechnologiesDescriptors =
        (\<lambda>dir recursive techs descriptors exclude w.
           Inr [(Go, [(''/repo/svc'', [''go.mod''])]),
                (Npm, [(''/repo/app'', [''package.json''])])]),
      PrepareExcludePathPattern = (\<lambda>exclusions recursive. concat exclusions),
      GetJsonIndent = (\<lambda>scans. Inr ''[]''),
      java_BuildDependencyTree = (\<lambda>params tech w. (([], [], None), w)),
      npm_BuildDependencyTree =
        (\<lambda>params w. (([demoNpmTree], [''pkg:a@1'', ''pkg:b@2''], None), w)),
      yarn_BuildDependencyTree = (\<lambda>params w. (([], [], None), w)),
      go_BuildDependencyTree =
        (\<lambda>params w. (([], [], Some (ErrorString ''go list failed'')), w)),
      python_BuildDependencyTree = (\<lambda>python w. (([], [], None), w)),
      nuget_BuildDependencyTree = (\<lambda>params w. (([], [], None), w)),
      RunXrayDependenciesTreeScanGraph = (\<lambda>flatTree tech scanParams w. (Inr [''XRAY-1''], w)),
      BuildImpactPathsForScanResponse = (\<lambda>responses trees. responses),
      GetProjectConfFilePath = (\<lambda>projectType w. ([], False, None)),
      ReadResolutionOnlyConfiguration = (\<lambda>path w. Inl (ErrorString ''no such file'')),
      logLevel_DEBUG = False,
      json_Marshal = (\<lambda>deps. Inr (concat deps))\<rparr>"

definition demoParams :: AuditParams where
  "demoParams =
     \<lparr>workingDirs = [], Technologies = [], PipRequirementsFile = [], Exclusions = [],
      DepsRepo = [], IgnoreConfigFile = False, params_ServerDetails = Inr ''xray.example'',
      thirdPartyApplicabilityScan = False, xrayGraphScanParams = [], xrayVersion = ''3.80.0'',
      fixableOnly = False, minSeverityFilter = [], DependenciesForApplicabilityScan = []\<rparr>"

definition demoWorld :: "unit World" where
  "demoWorld = \<lparr>cwd = ''/repo'', ext = ()\<rparr>"

definition demoGoUnit :: ScaScanResult where
  "demoGoUnit =
     \<lparr>WorkingDirectory = ''/repo/svc'', Technology = Go, Descriptors = [''go.mod''],
      IsMultipleRootProject = None, XrayResults = []\<rparr>"

definition demoNpmUnit :: ScaScanResult where
  "demoNpmUnit =
     \<lparr>WorkingDirectory = ''/repo/app'', Technology = Npm, Descriptors = [''package.json''],
      IsMultipleRootProject = None, XrayResults = []\<rparr>"

text \<open>The same project with only the npm package detected, and /repo no longer enterable.\<close>

definition restoreFailsEnv :: "unit Env" where
  "restoreFailsEnv =
     demoEnv\<lparr>DetectTechnologiesDescriptors :=
               (\<lambda>dir recursive techs descriptors exclude w.
                  Inr [(Npm, [(''/repo/app'', [''package.json''])])]),
             Chdir_err :=
               (\<lambda>dir w. if dir = ''/repo'' then Some (ErrorString ''chdir /repo: permission denied'')
                         else None)\<rparr>"

text \<open>Dotnet requested, no descriptor found.\<close>

definition dotnetOnlyEnv :: "unit Env" where
  "dotnetOnlyEnv =
     demoEnv\<lparr>DetectTechnologiesDescriptors :=
               (\<lambda>dir recursive techs descriptors exclude w. Inr [(Dotnet, [])])\<rparr>"

text \<open>A solution file in /repo, which the detector reports for Nuget and for Dotnet.\<close>

definition nugetDotnetEnv :: "unit Env" where
  "nugetDotnetEnv =
     demoEnv\<lparr>DetectTechnologiesDescriptors :=
               (\<lambda>dir recursive techs descriptors exclude w.
                  Inr [(Nuget, [(''/repo'', [''app.sln''])]),
                       (Dotnet, [(''/repo'', [''app.sln''])])])\<rparr>"

text \<open>A project with an npm resolver configuration file; one with only a Dotnet one.\<close>

definition demoRepoConfig :: RepoConfig where
  "demoRepoConfig = \<lparr>repo_ServerDetails = Inr ''artifactory.example'', TargetRepo = ''npm-remote''\<rparr>"

definition configEnv :: "unit Env" where
  "configEnv =
     demoEnv\<lparr>GetProjectConfFilePath :=
               (\<lambda>projectType w.
                  if projectType = project_Npm then (''.jfrog/projects/npm.yaml'', True, None)
                  else ([], False, None)),
             ReadResolutionOnlyConfiguration := (\<lambda>path w. Inr demoRepoConfig)\<rparr>"

definition dotnetConfigEnv :: "unit Env" where
  "dotnetConfigEnv =
     demoEnv\<lparr>GetProjectConfFilePath :=
               (\<lambda>projectType w.
                  if projectType = project_Dotnet then (''.jfrog/projects/dotnet.yaml'', True, None)
                  else ([], False, None)),
             ReadResolutionOnlyConfiguration :=
               (\<lambda>path w.
                  if path = ''.jfrog/projects/dotnet.yaml''
                  then Inr \<lparr>repo_ServerDetails = Inr ''artifactory.example'',
                            TargetRepo = ''nuget-remote''\<rparr>
                  else Inl (ErrorString ''no such file''))\<rparr>"

text \<open>Yarn requested, no descriptor found, next to a detected npm package.\<close>

definition yarnRequestedEnv :: "unit Env" where
  "yarnRequestedEnv =
     demoEnv\<lparr>DetectTechnologiesDescriptors :=
               (\<lambda>dir recursive techs descriptors exclude w.
                  Inr [(Yarn, []), (Npm, [(''/repo'', [''package.json''])])])\<rparr>"

text \<open>The Go module alone, and /repo no longer enterable.\<close>

definition goOnlyRestoreFailsEnv :: "unit Env" where
  "goOnlyRestoreFailsEnv =
     demoEnv\<lparr>DetectTechnologiesDescriptors :=
               (\<lambda>dir recursive techs descriptors exclude w.
                  Inr [(Go, [(''/repo/svc'', [''go.mod''])])]),
             Chdir_err :=
               (\<lambda>dir w. if dir = ''/repo'' then Some (ErrorString ''chdir /repo: permission denied'')
                         else None)\<rparr>"

text \<open>A Yarn unit (the Yarn builder of the project finds nothing), and what the runs leave.\<close>

definition demoYarnUnit :: ScaScanResult where
  "demoYarnUnit =
     \<lparr>WorkingDirectory = ''/repo/web'', Technology = Yarn, Descriptors = [''yarn.lock''],
      IsMultipleRootProject = None, XrayResults = []\<rparr>"

definition demoNpmScanned :: ScaScanResult where
  "demoNpmScanned = demoNpmUnit\<lparr>IsMultipleRootProject := Some False, XrayResults := [''XRAY-1'']\<rparr>"

definition demoGoError :: error where
  "demoGoError = treeBuildError demoEnv Go (ErrorString ''go list failed'')"

lemmas demo_defs =
  demoEnv_def demoParams_def demoWorld_def demoNpmTree_def demoGoUnit_def demoNpmUnit_def
  restoreFailsEnv_def dotnetOnlyEnv_def nugetDotnetEnv_def demoRepoConfig_def configEnv_def
  dotnetConfigEnv_def yarnRequestedEnv_def goOnlyRestoreFailsEnv_def demoYarnUnit_def
  demoNpmScanned_def demoGoError_def

lemmas msg_defs = treeBuildError_def auditFailedError_def noDependenciesMsg_def quoted_def
  xrayScanError_def

lemmas runner_defs =
  runScaScan_def os_Getwd_def os_Chdir_def getScaScansToPreform_def
  getRequestedDirectoriesToScan_def getRequestedDescriptors_def getExcludePattern_def
  scansOfWorkingDirs_def executeScaScan_def GetTechDependencyTree_def
  SetResolutionRepoIfExists_def findResolverConfig_def useResolverConfig_def techType_at_def
  techType_def buildDependencyTree_def createFlatTree_def runScaWithTech_def
  addThirdPartyDependenciesToParams_def shouldUseAllDependencies_def
  getDirectDependenciesFromTree_def Set_Add_def Set_ToSlice_def
  AppendDependenciesForApplicabilityScan_def errors_Join_def errorutils_CheckError_def
  errorutils_CheckErrorf_def

section \<open>Properties\<close>

subsection \<open>Sets\<close>

lemma set_foldl_Set_Add: "set (foldl (\<lambda>s x. Set_Add x s) acc xs) = set acc \<union> set xs"
  by (induction xs arbitrary: acc) (auto simp: Set_Add_def)

lemma distinct_foldl_Set_Add: "distinct acc \<Longrightarrow> distinct (foldl (\<lambda>s x. Set_Add x s) acc xs)"
  by (induction xs arbitrary: acc) (auto simp: Set_Add_def)

lemma set_Set_ToSlice: "set (Set_ToSlice rank s) = set s"
  by (simp add: Set_ToSlice_def)

lemma distinct_Set_ToSlice: "distinct (Set_ToSlice rank s) = distinct s"
  by (simp add: Set_ToSlice_def)

lemma set_foldl_node_ids:
  "set (foldl (\<lambda>s node. Set_Add (NodeId node) s) acc nodes) = set acc \<union> NodeId ` set nodes"
  by (induction nodes arbitrary: acc) (auto simp: Set_Add_def)

lemma distinct_foldl_node_ids:
  "distinct acc \<Longrightarrow> distinct (foldl (\<lambda>s node. Set_Add (NodeId node) s) acc nodes)"
  by (induction nodes arbitrary: acc) (auto simp: Set_Add_def)

lemma set_foldl_trees:
  "set (foldl (\<lambda>s tree. foldl (\<lambda>s node. Set_Add (NodeId node) s) s (Nodes tree)) acc trees)
   = set acc \<union> (\<Union>tree \<in> set trees. NodeId ` set (Nodes tree))"
  by (induction trees arbitrary: acc) (auto simp: set_foldl_node_ids)

lemma distinct_foldl_trees:
  "distinct acc \<Longrightarrow>
   distinct (foldl (\<lambda>s tree. foldl (\<lambda>s node. Set_Add (NodeId node) s) s (Nodes tree)) acc trees)"
  by (induction trees arbitrary: acc) (auto simp: distinct_foldl_node_ids)

lemma set_getDirectDependenciesFromTree:
  "set (getDirectDependenciesFromTree rank trees) = (\<Union>tree \<in> set trees. NodeId ` set (Nodes tree))"
  by (simp add: getDirectDependenciesFromTree_def set_Set_ToSlice set_foldl_trees)

lemma distinct_getDirectDependenciesFromTree:
  "distinct (getDirectDependenciesFromTree rank trees)"
  by (simp add: getDirectDependenciesFromTree_def distinct_Set_ToSlice distinct_foldl_trees)

subsection \<open>Requested directories\<close>

text \<open>
  C9. With no working directories in the parameters, \<open>getRequestedDirectoriesToScan\<close>
  returns the current working directory alone and recursive mode; otherwise it returns
  the caller's directories (each once, in the order the set yields them) and
  non-recursive mode. So recursive mode goes with no explicit directory, and only with
  that.
\<close>

theorem getRequestedDirectoriesToScan_modes:
  assumes "getRequestedDirectoriesToScan env currentWorkingDir params w = (dirs, isRecursive)"
  shows "(workingDirs params = [] \<longrightarrow> dirs = [currentWorkingDir] \<and> isRecursive)
       \<and> (workingDirs params \<noteq> [] \<longrightarrow>
            set dirs = set (workingDirs params) \<and> distinct dirs \<and> \<not> isRecursive)
       \<and> (isRecursive \<longleftrightarrow> workingDirs params = [])"
  using assms
  by (auto simp: getRequestedDirectoriesToScan_def Let_def set_foldl_Set_Add
        distinct_foldl_Set_Add set_Set_ToSlice distinct_Set_ToSlice split: if_splits)

text \<open>
  Two directories given, one of them twice: both come back once, non-recursively.
\<close>

theorem getRequestedDirectoriesToScan_modes_witness:
  "getRequestedDirectoriesToScan demoEnv ''/repo''
     (demoParams\<lparr>workingDirs := [''/repo/b'', ''/repo/a'', ''/repo/b'']\<rparr>) demoWorld
   = ([''/repo/b'', ''/repo/a''], False)
   \<and> set [''/repo/b'', ''/repo/a''] = set [''/repo/b'', ''/repo/a'', ''/repo/b'']
   \<and> distinct [''/repo/b'', ''/repo/a'']"
proof -
  have h: "getRequestedDirectoriesToScan demoEnv ''/repo''
     (demoParams\<lparr>workingDirs := [''/repo/b'', ''/repo/a'', ''/repo/b'']\<rparr>) demoWorld
   = ([''/repo/b'', ''/repo/a''], False)"
    by (simp add: demo_defs runner_defs)
  show ?thesis
    using h getRequestedDirectoriesToScan_modes [OF h] by (simp add: demo_defs)
qed

subsection \<open>The flat tree\<close>

text \<open>
  C3, as the code has it. Unless encoding the list for the debug log fails (the only
  error return), \<open>createFlatTree\<close> returns a node "root" whose children are leaves, one
  per element of the list it is given, in that order. Nothing is deduplicated: the
  children's identifiers are free of duplicates, and as many as the set of the input,
  exactly when the input list is free of duplicates.
\<close>

theorem createFlatTree_shape:
  assumes "logLevel_DEBUG env \<longrightarrow> (\<exists>jsonList. json_Marshal env uniqueDeps = Inr jsonList)"
  shows "\<exists>t. createFlatTree env uniqueDeps = Inr t
           \<and> NodeId t = ''root''
           \<and> map NodeId (Nodes t) = uniqueDeps
           \<and> (\<forall>n \<in> set (Nodes t). Nodes n = [])
           \<and> (distinct (map NodeId (Nodes t)) \<longleftrightarrow> distinct uniqueDeps)
           \<and> (length (Nodes t) = card (set uniqueDeps) \<longleftrightarrow> distinct uniqueDeps)"
proof -
  let ?t = "GraphNode ''root'' (map (\<lambda>uniqueDep. GraphNode uniqueDep []) uniqueDeps)"
  have ret: "createFlatTree env uniqueDeps = Inr ?t"
    using assms by (auto simp: createFlatTree_def)
  have ids: "map NodeId (Nodes ?t) = uniqueDeps"
    by (simp add: comp_def)
  have card: "(length uniqueDeps = card (set uniqueDeps)) \<longleftrightarrow> distinct uniqueDeps"
    using card_distinct distinct_card by metis
  show ?thesis
    using ret ids card by auto
qed

text \<open>
  The same identifier twice in the input gives two children with that identifier: two
  children for a set of one.
\<close>

theorem createFlatTree_duplicates_counterexample:
  "createFlatTree demoEnv [''pkg:a@1'', ''pkg:a@1'']
   = Inr (GraphNode ''root'' [GraphNode ''pkg:a@1'' [], GraphNode ''pkg:a@1'' []])
   \<and> \<not> distinct (map NodeId [GraphNode ''pkg:a@1'' [], GraphNode ''pkg:a@1'' []])
   \<and> length [GraphNode ''pkg:a@1'' [], GraphNode ''pkg:a@1'' []]
       \<noteq> card (set [''pkg:a@1'', ''pkg:a@1''])"
  by (simp add: createFlatTree_def demoEnv_def)

text \<open>
  The list of two distinct identifiers gives the root with the two leaves.
\<close>

theorem createFlatTree_shape_witness:
  "createFlatTree demoEnv [''pkg:a@1'', ''pkg:b@2'']
   = Inr (GraphNode ''root'' [GraphNode ''pkg:a@1'' [], GraphNode ''pkg:b@2'' []])"
proof -
  have h: "logLevel_DEBUG demoEnv \<longrightarrow>
             (\<exists>jsonList. json_Marshal demoEnv [''pkg:a@1'', ''pkg:b@2''] = Inr jsonList)"
    by (simp add: demoEnv_def)
  show ?thesis
    using h createFlatTree_shape [OF h] by (simp add: createFlatTree_def demoEnv_def)
qed

subsection \<open>Scheduling\<close>

lemma scansOfTechs_no_Dotnet: "s \<in> set (scansOfTechs d m) \<Longrightarrow> Technology s \<noteq> Dotnet"
  by (induction d m rule: scansOfTechs.induct) (auto simp: scansOfWorkingDirs_def split: if_splits)

lemma scansOfDirectories_no_Dotnet:
  "s \<in> set (scansOfDirectories env params r w ds) \<Longrightarrow> Technology s \<noteq> Dotnet"
  by (induction ds) (auto split: sum.splits dest: scansOfTechs_no_Dotnet)

lemma scansOfTechs_other_tech:
  "tech \<notin> fst ` set m \<Longrightarrow> filter (\<lambda>s. Technology s = tech) (scansOfTechs d m) = []"
  by (induction d m rule: scansOfTechs.induct) (auto simp: scansOfWorkingDirs_def filter_empty_conv)

lemma scansOfTechs_undetected:
  assumes "distinct (map fst m)" and "(tech, []) \<in> set m" and "tech \<noteq> Dotnet"
  shows "filter (\<lambda>s. Technology s = tech) (scansOfTechs d m)
         = [\<lparr>WorkingDirectory = d, Technology = tech, Descriptors = [],
             IsMultipleRootProject = None, XrayResults = []\<rparr>]"
  using assms
proof (induction d m rule: scansOfTechs.induct)
  case (1 d)
  then show ?case by simp
next
  case (2 d t wdirs rest)
  show ?case
  proof (cases "t = tech")
    case True
    with "2.prems" have "wdirs = []" by (auto simp: image_iff)
    moreover from "2.prems" True have "tech \<notin> fst ` set rest" by auto
    ultimately show ?thesis
      using True "2.prems"(3) by (simp add: scansOfTechs_other_tech scansOfWorkingDirs_def)
  next
    case False
    with "2.prems" have in_rest: "(tech, []) \<in> set rest" and d: "distinct (map fst rest)" by auto
    have nofilter: "filter (\<lambda>s. Technology s = tech) (scansOfWorkingDirs t wdirs) = []"
      using False by (auto simp: scansOfWorkingDirs_def filter_empty_conv)
    show ?thesis
    proof (cases "t = Dotnet")
      case True
      then show ?thesis using "2.IH"(1)[OF True d in_rest "2.prems"(3)] by simp
    next
      case nd: False
      then show ?thesis using "2.IH"(2)[OF nd d in_rest "2.prems"(3)] False nofilter by simp
    qed
  qed
qed

text \<open>
  C4, as the code has it. Let a technology other than Dotnet be listed by detection with
  no working directory, for each requested directory. Then the scans scheduled for that
  technology are exactly one per requested directory, rooted at that directory, with no
  descriptors.
\<close>

theorem getScaScansToPreform_undetected_technology:
  assumes dirs: "getRequestedDirectoriesToScan env currentWorkingDir params w = (dirs, isRecursive)"
    and detect: "\<forall>d \<in> set dirs. \<exists>m.
           DetectTechnologiesDescriptors env d isRecursive (Technologies params)
             (getRequestedDescriptors params) (getExcludePattern env params isRecursive) w = Inr m
           \<and> distinct (map fst m) \<and> (tech, []) \<in> set m"
    and tech: "tech \<noteq> Dotnet"
  shows "filter (\<lambda>s. Technology s = tech) (getScaScansToPreform env currentWorkingDir params w)
         = map (\<lambda>d. \<lparr>WorkingDirectory = d, Technology = tech, Descriptors = [],
                      IsMultipleRootProject = None, XrayResults = []\<rparr>) dirs"
proof -
  have "filter (\<lambda>s. Technology s = tech) (scansOfDirectories env params isRecursive w dirs)
        = map (\<lambda>d. \<lparr>WorkingDirectory = d, Technology = tech, Descriptors = [],
                      IsMultipleRootProject = None, XrayResults = []\<rparr>) dirs"
    using detect
  proof (induction dirs)
    case Nil
    then show ?case by simp
  next
    case (Cons d dirs)
    then obtain m where m: "DetectTechnologiesDescriptors env d isRecursive (Technologies params)
             (getRequestedDescriptors params) (getExcludePattern env params isRecursive) w = Inr m"
        "distinct (map fst m)" "(tech, []) \<in> set m"
      by auto
    from Cons have rest: "filter (\<lambda>s. Technology s = tech) (scansOfDirectories env params isRecursive w dirs)
        = map (\<lambda>d. \<lparr>WorkingDirectory = d, Technology = tech, Descriptors = [],
                      IsMultipleRootProject = None, XrayResults = []\<rparr>) dirs"
      by simp
    show ?case
      using m(1) rest scansOfTechs_undetected[OF m(2) m(3) tech, of d] by simp
  qed
  then show ?thesis
    using dirs by (simp add: getScaScansToPreform_def)
qed

text \<open>
  Dotnet requested and listed by detection with no working directory: nothing is
  scheduled.
\<close>

theorem getScaScansToPreform_Dotnet_counterexample:
  "DetectTechnologiesDescriptors dotnetOnlyEnv ''/repo'' True [''dotnet'']
     (getRequestedDescriptors (demoParams\<lparr>Technologies := [''dotnet'']\<rparr>))
     (getExcludePattern dotnetOnlyEnv (demoParams\<lparr>Technologies := [''dotnet'']\<rparr>) True) demoWorld
   = Inr [(Dotnet, [])]
   \<and> getScaScansToPreform dotnetOnlyEnv ''/repo'' (demoParams\<lparr>Technologies := [''dotnet'']\<rparr>)
        demoWorld = []"
  by (simp add: demo_defs runner_defs)

text \<open>
  Yarn requested and listed with no working directory: one Yarn scan, at /repo.
\<close>

theorem getScaScansToPreform_undetected_technology_witness:
  "filter (\<lambda>s. Technology s = Yarn)
     (getScaScansToPreform yarnRequestedEnv ''/repo'' (demoParams\<lparr>Technologies := [''yarn'']\<rparr>)
        demoWorld)
   = [\<lparr>WorkingDirectory = ''/repo'', Technology = Yarn, Descriptors = [],
       IsMultipleRootProject = None, XrayResults = []\<rparr>]"
proof -
  let ?p = "demoParams\<lparr>Technologies := [''yarn'']\<rparr>"
  have dirs: "getRequestedDirectoriesToScan yarnRequestedEnv ''/repo'' ?p demoWorld
              = ([''/repo''], True)"
    by (simp add: demo_defs runner_defs)
  have detect: "\<forall>d \<in> set [''/repo'']. \<exists>m.
           DetectTechnologiesDescriptors yarnRequestedEnv d True (Technologies ?p)
             (getRequestedDescriptors ?p) (getExcludePattern yarnRequestedEnv ?p True) demoWorld
           = Inr m
           \<and> distinct (map fst m) \<and> (Yarn, []) \<in> set m"
    by (simp add: yarnRequestedEnv_def demo_defs)
  have tech: "Yarn \<noteq> Dotnet" by simp
  show ?thesis
    using getScaScansToPreform_undetected_technology [OF dirs detect tech] by simp
qed

text \<open>
  C5. No scheduled scan has the Dotnet technology, whatever detection returns. When
  detection for the one requested directory reports Nuget and Dotnet for the same
  working directory, in either iteration order, the Nuget scan of that directory is the
  only scan scheduled.
\<close>

theorem getScaScansToPreform_drops_Dotnet:
  "(\<forall>scan \<in> set (getScaScansToPreform env currentWorkingDir params w). Technology scan \<noteq> Dotnet)
   \<and> (getRequestedDirectoriesToScan env currentWorkingDir params w = ([d], isRecursive)
      \<and> DetectTechnologiesDescriptors env d isRecursive (Technologies params)
           (getRequestedDescriptors params) (getExcludePattern env params isRecursive) w = Inr m
      \<and> (m = [(Nuget, [(wd, ds)]), (Dotnet, [(wd, ds')])]
         \<or> m = [(Dotnet, [(wd, ds')]), (Nuget, [(wd, ds)])])
      \<longrightarrow> getScaScansToPreform env currentWorkingDir params w
          = [\<lparr>WorkingDirectory = wd, Technology = Nuget, Descriptors = ds,
              IsMultipleRootProject = None, XrayResults = []\<rparr>])"
proof (intro conjI ballI impI)
  fix scan
  assume "scan \<in> set (getScaScansToPreform env currentWorkingDir params w)"
  then show "Technology scan \<noteq> Dotnet"
    by (auto simp: getScaScansToPreform_def split: prod.splits dest: scansOfDirectories_no_Dotnet)
next
  assume "getRequestedDirectoriesToScan env currentWorkingDir params w = ([d], isRecursive)
      \<and> DetectTechnologiesDescriptors env d isRecursive (Technologies params)
           (getRequestedDescriptors params) (getExcludePattern env params isRecursive) w = Inr m
      \<and> (m = [(Nuget, [(wd, ds)]), (Dotnet, [(wd, ds')])]
         \<or> m = [(Dotnet, [(wd, ds')]), (Nuget, [(wd, ds)])])"
  then show "getScaScansToPreform env currentWorkingDir params w
          = [\<lparr>WorkingDirectory = wd, Technology = Nuget, Descriptors = ds,
              IsMultipleRootProject = None, XrayResults = []\<rparr>]"
    by (auto simp: getScaScansToPreform_def scansOfWorkingDirs_def)
qed

text \<open>
  The solution file reported for Nuget and Dotnet gives the Nuget scan alone.
\<close>

theorem getScaScansToPreform_drops_Dotnet_witness:
  "getScaScansToPreform nugetDotnetEnv ''/repo'' demoParams demoWorld
   = [\<lparr>WorkingDirectory = ''/repo'', Technology = Nuget, Descriptors = [''app.sln''],
       IsMultipleRootProject = None, XrayResults = []\<rparr>]"
proof -
  have dirs: "getRequestedDirectoriesToScan nugetDotnetEnv ''/repo'' demoParams demoWorld
              = ([''/repo''], True)"
    by (simp add: demo_defs runner_defs)
  have detect: "DetectTechnologiesDescriptors nugetDotnetEnv ''/repo'' True (Technologies demoParams)
           (getRequestedDescriptors demoParams) (getExcludePattern nugetDotnetEnv demoParams True)
           demoWorld
         = Inr [(Nuget, [(''/repo'', [''app.sln''])]), (Dotnet, [(''/repo'', [''app.sln''])])]"
    by (simp add: demo_defs)
  show ?thesis
    using dirs detect
      getScaScansToPreform_drops_Dotnet [of nugetDotnetEnv "''/repo''" demoParams demoWorld
        "''/repo''" True "[(Nuget, [(''/repo'', [''app.sln''])]), (Dotnet, [(''/repo'', [''app.sln''])])]"
        "''/repo''" "[''app.sln'']" "[''app.sln'']"]
    by simp
qed

subsection \<open>Resolution repository\<close>

lemma techType_at_Dotnet: "techType_at env Dotnet = project_Dotnet"
  by (simp add: techType_at_def techType_def)

lemma findResolverConfig_not_found:
  assumes "GetProjectConfFilePath env (techType_at env tech) w = (path, False, None)"
  shows "(tech \<noteq> Nuget \<longrightarrow> findResolverConfig env tech w = Inr None)
       \<and> (tech = Nuget \<longrightarrow>
            (case GetProjectConfFilePath env project_Dotnet w of
               (dotnetPath, dotnetExists, Some e) \<Rightarrow>
                 findResolverConfig env tech w = Inl (searchError env Nuget e)
             | (dotnetPath, dotnetExists, None) \<Rightarrow>
                 findResolverConfig env tech w
                 = Inr (if dotnetExists then Some dotnetPath else None)))"
  using assms
  by (auto simp: findResolverConfig_def techType_at_Dotnet split: prod.splits option.splits)

text \<open>
  C8. Let the resolver look for a configuration file (no dependencies repository set,
  configuration files not switched off) and find none of the technology's own. For
  every technology but Nuget it returns nil at once and leaves the parameters alone,
  whether or not a Dotnet configuration file exists. For Nuget it goes on to the Dotnet
  configuration file: an error of that search is returned; with no Dotnet file either
  it returns nil and leaves the parameters alone; with a Dotnet file it reads that
  file, failing when the file or its server details cannot be read and otherwise storing
  its server details and target repository.
\<close>

theorem SetResolutionRepoIfExists_Nuget_only:
  assumes lookup: "DepsRepo params = []" "\<not> IgnoreConfigFile params"
    and own: "GetProjectConfFilePath env (techType_at env tech) w = (path, False, None)"
  shows "(tech \<noteq> Nuget \<longrightarrow> SetResolutionRepoIfExists env params tech w = (None, params))
       \<and> (tech = Nuget \<longrightarrow>
            (case GetProjectConfFilePath env project_Dotnet w of
               (dotnetPath, dotnetExists, Some e) \<Rightarrow>
                 SetResolutionRepoIfExists env params tech w
                 = (Some (searchError env Nuget e), params)
             | (dotnetPath, dotnetExists, None) \<Rightarrow>
                 if \<not> dotnetExists
                 then SetResolutionRepoIfExists env params tech w = (None, params)
                 else
                   (case ReadResolutionOnlyConfiguration env dotnetPath w of
                      Inl readErr \<Rightarrow>
                        fst (SetResolutionRepoIfExists env params tech w) \<noteq> None
                        \<and> snd (SetResolutionRepoIfExists env params tech w) = params
                    | Inr repoConfig \<Rightarrow>
                        (case repo_ServerDetails repoConfig of
                           Inl detailsErr \<Rightarrow>
                             fst (SetResolutionRepoIfExists env params tech w) \<noteq> None
                             \<and> snd (SetResolutionRepoIfExists env params tech w) = params
                         | Inr details \<Rightarrow>
                             SetResolutionRepoIfExists env params tech w
                             = (None, params\<lparr>params_ServerDetails := Inr details,
                                              DepsRepo := TargetRepo repoConfig\<rparr>)))))"
proof (intro conjI impI)
  assume "tech \<noteq> Nuget"
  then have "findResolverConfig env tech w = Inr None"
    using findResolverConfig_not_found [OF own] by simp
  then show "SetResolutionRepoIfExists env params tech w = (None, params)"
    using lookup by (simp add: SetResolutionRepoIfExists_def)
next
  assume nuget: "tech = Nuget"
  obtain dotnetPath dotnetExists dotnetErr where
    dotnet: "GetProjectConfFilePath env project_Dotnet w = (dotnetPath, dotnetExists, dotnetErr)"
    by (metis prod_cases3)
  have found: "case dotnetErr of
                 Some e \<Rightarrow> findResolverConfig env tech w = Inl (searchError env Nuget e)
               | None \<Rightarrow> findResolverConfig env tech w
                          = Inr (if dotnetExists then Some dotnetPath else None)"
    using findResolverConfig_not_found [OF own] nuget dotnet by (simp split: option.splits)
  show "case GetProjectConfFilePath env project_Dotnet w of
               (dotnetPath, dotnetExists, Some e) \<Rightarrow>
                 SetResolutionRepoIfExists env params tech w
                 = (Some (searchError env Nuget e), params)
             | (dotnetPath, dotnetExists, None) \<Rightarrow>
                 if \<not> dotnetExists
                 then SetResolutionRepoIfExists env params tech w = (None, params)
                 else
                   (case ReadResolutionOnlyConfiguration env dotnetPath w of
                      Inl readErr \<Rightarrow>
                        fst (SetResolutionRepoIfExists env params tech w) \<noteq> None
                        \<and> snd (SetResolutionRepoIfExists env params tech w) = params
                    | Inr repoConfig \<Rightarrow>
                        (case repo_ServerDetails repoConfig of
                           Inl detailsErr \<Rightarrow>
                             fst (SetResolutionRepoIfExists env params tech w) \<noteq> None
                             \<and> snd (SetResolutionRepoIfExists env params tech w) = params
                         | Inr details \<Rightarrow>
                             SetResolutionRepoIfExists env params tech w
                             = (None, params\<lparr>params_ServerDetails := Inr details,
                                              DepsRepo := TargetRepo repoConfig\<rparr>)))"
    using found lookup dotnet
    by (auto simp: SetResolutionRepoIfExists_def useResolverConfig_def
             split: option.splits sum.splits)
qed

text \<open>
  With a Dotnet configuration file only, the resolver stores that file's server and
  repository for Nuget; for Npm it finds nothing and leaves the parameters alone.
\<close>

theorem SetResolutionRepoIfExists_Nuget_only_witness:
  "SetResolutionRepoIfExists dotnetConfigEnv demoParams Nuget demoWorld
   = (None, demoParams\<lparr>params_ServerDetails := Inr ''artifactory.example'',
                        DepsRepo := ''nuget-remote''\<rparr>)
   \<and> SetResolutionRepoIfExists dotnetConfigEnv demoParams Npm demoWorld = (None, demoParams)"
proof -
  have repo: "DepsRepo demoParams = []" and files: "\<not> IgnoreConfigFile demoParams"
    by (simp_all add: demo_defs)
  have nuget: "GetProjectConfFilePath dotnetConfigEnv (techType_at dotnetConfigEnv Nuget) demoWorld
               = ([], False, None)"
    by (simp add: demo_defs techType_at_def techType_def)
  have npm: "GetProjectConfFilePath dotnetConfigEnv (techType_at dotnetConfigEnv Npm) demoWorld
               = ([], False, None)"
    by (simp add: demo_defs techType_at_def techType_def)
  have dotnet: "GetProjectConfFilePath dotnetConfigEnv project_Dotnet demoWorld
               = (''.jfrog/projects/dotnet.yaml'', True, None)"
    by (simp add: demo_defs)
  have read: "ReadResolutionOnlyConfiguration dotnetConfigEnv ''.jfrog/projects/dotnet.yaml''
                demoWorld
              = Inr \<lparr>repo_ServerDetails = Inr ''artifactory.example'',
                     TargetRepo = ''nuget-remote''\<rparr>"
    by (simp add: demo_defs)
  show ?thesis
    using SetResolutionRepoIfExists_Nuget_only [OF repo files nuget]
      SetResolutionRepoIfExists_Nuget_only [OF repo files npm] dotnet read
    by simp
qed

lemma SetResolutionRepoIfExists_keeps:
  "SetResolutionRepoIfExists env params tech w = (e, params1) \<Longrightarrow>
     thirdPartyApplicabilityScan params1 = thirdPartyApplicabilityScan params
     \<and> DependenciesForApplicabilityScan params1 = DependenciesForApplicabilityScan params"
  by (auto simp: SetResolutionRepoIfExists_def useResolverConfig_def
           split: if_splits sum.splits option.splits)



subsection \<open>One scan unit\<close>

text \<open>
  C6, as the code has it. Take a scan unit whose tree builder is reached and returns an
  empty list of unique dependencies. If the builder returned no error, the unit fails
  with the "no dependencies were found" message; if it returned an error, the unit fails
  with the tree-building failure that carries the builder's error. Either way the
  loop joins the unit's error, adds nothing to the results and goes on with the
  remaining units.
\<close>

theorem executeScaScan_build_failure:
  assumes chdir: "Chdir_err env (WorkingDirectory scan) w = None"
    and details: "params_ServerDetails params = Inr details"
    and resolver: "SetResolutionRepoIfExists env params (Technology scan)
                     (w\<lparr>cwd := WorkingDirectory scan\<rparr>) = (None, params1)"
    and build: "buildDependencyTree env params1 details (Technology scan)
                  (w\<lparr>cwd := WorkingDirectory scan\<rparr>) = ((fullTrees, [], buildErr), w2)"
  shows "(buildErr = None \<longrightarrow>
            executeScaScan env serverDetails params scan w
            = (Some (errorutils_CheckErrorf env noDependenciesMsg), scan, params1, w2))
       \<and> (\<forall>e. buildErr = Some e \<longrightarrow>
            executeScaScan env serverDetails params scan w
            = (Some (treeBuildError env (Technology scan) e), scan, params1, w2))
       \<and> (\<exists>unitErr.
            fst (executeScaScan env serverDetails params scan w) = Some unitErr
            \<and> runScaScan_loop env serverDetails (scan # scans) (err, results, params, w)
              = runScaScan_loop env serverDetails scans
                  (errors_Join [err, Some (auditFailedError scan unitErr)], results, params1, w2))"
proof -
  have tree: "GetTechDependencyTree env params (Technology scan) (w\<lparr>cwd := WorkingDirectory scan\<rparr>)
              = (None, fullTrees, buildErr, params1, w2)"
    using details resolver build by (simp add: GetTechDependencyTree_def)
  have none: "buildErr = None \<Longrightarrow> executeScaScan env serverDetails params scan w
            = (Some (errorutils_CheckErrorf env noDependenciesMsg), scan, params1, w2)"
    using chdir tree by (simp add: executeScaScan_def os_Chdir_def)
  have some: "\<And>e. buildErr = Some e \<Longrightarrow> executeScaScan env serverDetails params scan w
            = (Some (treeBuildError env (Technology scan) e), scan, params1, w2)"
    using chdir tree by (simp add: executeScaScan_def os_Chdir_def)
  have loop: "\<exists>unitErr.
            fst (executeScaScan env serverDetails params scan w) = Some unitErr
            \<and> runScaScan_loop env serverDetails (scan # scans) (err, results, params, w)
              = runScaScan_loop env serverDetails scans
                  (errors_Join [err, Some (auditFailedError scan unitErr)], results, params1, w2)"
  proof (cases buildErr)
    case None
    then show ?thesis using none by simp
  next
    case (Some e)
    then show ?thesis using some by simp
  qed
  show ?thesis using none some loop by blast
qed

text \<open>
  The Go builder returns an error and no dependency: the unit fails with the
  tree-building failure, not with the "no dependencies were found" message.
\<close>

theorem executeScaScan_builder_error_counterexample:
  "buildDependencyTree demoEnv demoParams ''xray.example'' Go (demoWorld\<lparr>cwd := ''/repo/svc''\<rparr>)
   = (([], [], Some (ErrorString ''go list failed'')), demoWorld\<lparr>cwd := ''/repo/svc''\<rparr>)
   \<and> fst (executeScaScan demoEnv ''xray.example'' demoParams demoGoUnit demoWorld)
       = Some (treeBuildError demoEnv Go (ErrorString ''go list failed''))
   \<and> fst (executeScaScan demoEnv ''xray.example'' demoParams demoGoUnit demoWorld)
       \<noteq> Some (errorutils_CheckErrorf demoEnv noDependenciesMsg)"
  by (simp add: demo_defs runner_defs msg_defs)

text \<open>
  The Yarn unit (no error, no dependency) and the Go unit (an error, no dependency).
\<close>

theorem executeScaScan_build_failure_witness:
  "executeScaScan demoEnv ''xray.example'' demoParams demoYarnUnit demoWorld
   = (Some (errorutils_CheckErrorf demoEnv noDependenciesMsg), demoYarnUnit, demoParams,
      demoWorld\<lparr>cwd := ''/repo/web''\<rparr>)
   \<and> executeScaScan demoEnv ''xray.example'' demoParams demoGoUnit demoWorld
   = (Some (treeBuildError demoEnv Go (ErrorString ''go list failed'')), demoGoUnit, demoParams,
      demoWorld\<lparr>cwd := ''/repo/svc''\<rparr>)"
proof -
  have details: "params_ServerDetails demoParams = Inr ''xray.example''"
    by (simp add: demo_defs)
  have y1: "Chdir_err demoEnv (WorkingDirectory demoYarnUnit) demoWorld = None"
    by (simp add: demo_defs)
  have y2: "SetResolutionRepoIfExists demoEnv demoParams (Technology demoYarnUnit)
              (demoWorld\<lparr>cwd := WorkingDirectory demoYarnUnit\<rparr>) = (None, demoParams)"
    by (simp add: demo_defs demoYarnUnit_def runner_defs)
  have y3: "buildDependencyTree demoEnv demoParams ''xray.example'' (Technology demoYarnUnit)
              (demoWorld\<lparr>cwd := WorkingDirectory demoYarnUnit\<rparr>)
            = (([], [], None), demoWorld\<lparr>cwd := ''/repo/web''\<rparr>)"
    by (simp add: demo_defs demoYarnUnit_def runner_defs)
  have g1: "Chdir_err demoEnv (WorkingDirectory demoGoUnit) demoWorld = None"
    by (simp add: demo_defs)
  have g2: "SetResolutionRepoIfExists demoEnv demoParams (Technology demoGoUnit)
              (demoWorld\<lparr>cwd := WorkingDirectory demoGoUnit\<rparr>) = (None, demoParams)"
    by (simp add: demo_defs runner_defs)
  have g3: "buildDependencyTree demoEnv demoParams ''xray.example'' (Technology demoGoUnit)
              (demoWorld\<lparr>cwd := WorkingDirectory demoGoUnit\<rparr>)
            = (([], [], Some (ErrorString ''go list failed'')), demoWorld\<lparr>cwd := ''/repo/svc''\<rparr>)"
    by (simp add: demo_defs runner_defs)
  show ?thesis
    using executeScaScan_build_failure [OF y1 details y2 y3, of "''xray.example''" "[]" None "[]"]
      executeScaScan_build_failure [OF g1 details g2 g3, of "''xray.example''" "[]" None "[]"]
    by (simp add: demoGoUnit_def)
qed

lemma GetTechDependencyTree_keeps:
  "GetTechDependencyTree env params tech w = (flat, full, e, params1, w1) \<Longrightarrow>
     thirdPartyApplicabilityScan params1 = thirdPartyApplicabilityScan params
     \<and> DependenciesForApplicabilityScan params1 = DependenciesForApplicabilityScan params"
  by (auto simp: GetTechDependencyTree_def
           split: sum.splits prod.splits option.splits if_splits
           dest: SetResolutionRepoIfExists_keeps)

lemma createFlatTree_children:
  "createFlatTree env uniqueDeps = Inr flatTree \<Longrightarrow> map NodeId (Nodes flatTree) = uniqueDeps"
  by (auto simp: createFlatTree_def comp_def split: option.splits if_splits sum.splits)

lemma GetTechDependencyTree_flat:
  assumes "GetTechDependencyTree env params tech w = (Some flatTree, fullTrees, techErr, params2, w2)"
  shows "\<exists>details uniqueDeps.
           params_ServerDetails params = Inr details
         \<and> SetResolutionRepoIfExists env params tech w = (None, params2)
         \<and> buildDependencyTree env params2 details tech w = ((fullTrees, uniqueDeps, None), w2)
         \<and> map NodeId (Nodes flatTree) = uniqueDeps
         \<and> techErr = None"
  using assms
  by (auto simp: GetTechDependencyTree_def
           split: sum.splits prod.splits option.splits if_splits
           dest: createFlatTree_children)

text \<open>
  C10. When a scan unit succeeds, its tree builder has returned full trees and a list of
  unique dependencies without error, and the flat tree's children are that list. The
  identifiers appended to the parameters for the applicability scan are then, each once,
  all the unique dependencies (the children of the flat tree) when the technology is
  Pip, or is Npm with the third-party flag set, and otherwise the identifiers of the
  direct children of the full dependency trees.
\<close>

theorem executeScaScan_applicability_dependencies:
  assumes ok: "executeScaScan env serverDetails params scan w = (None, scan1, params1, w1)"
  shows "\<exists>details params2 w2 flatTree fullTrees uniqueDeps deps.
           params_ServerDetails params = Inr details
         \<and> SetResolutionRepoIfExists env params (Technology scan)
               (w\<lparr>cwd := WorkingDirectory scan\<rparr>) = (None, params2)
         \<and> buildDependencyTree env params2 details (Technology scan)
               (w\<lparr>cwd := WorkingDirectory scan\<rparr>) = ((fullTrees, uniqueDeps, None), w2)
         \<and> GetTechDependencyTree env params (Technology scan)
               (w\<lparr>cwd := WorkingDirectory scan\<rparr>)
             = (Some flatTree, fullTrees, None, params2, w2)
         \<and> map NodeId (Nodes flatTree) = uniqueDeps
         \<and> DependenciesForApplicabilityScan params1
             = DependenciesForApplicabilityScan params @ deps
         \<and> distinct deps
         \<and> set deps =
             (if Technology scan = Pip
                 \<or> (Technology scan = Npm \<and> thirdPartyApplicabilityScan params)
              then set uniqueDeps
              else (\<Union>tree \<in> set fullTrees. NodeId ` set (Nodes tree)))"
proof -
  obtain flat full techErr p2 w2 where
    tree: "GetTechDependencyTree env params (Technology scan) (w\<lparr>cwd := WorkingDirectory scan\<rparr>)
           = (flat, full, techErr, p2, w2)"
    by (metis prod_cases5)
  from ok have chdir: "Chdir_err env (WorkingDirectory scan) w = None"
    by (auto simp: executeScaScan_def os_Chdir_def errorutils_CheckError_def split: option.splits)
  from ok chdir tree obtain flatTree where flat: "flat = Some flatTree"
    by (cases flat) (auto simp: executeScaScan_def os_Chdir_def split: option.splits)
  from ok chdir tree flat have
    p1: "params1 = addThirdPartyDependenciesToParams env p2 (Technology scan) flatTree full w1"
    by (auto simp: executeScaScan_def os_Chdir_def
             split: option.splits if_splits prod.splits sum.splits)
  from GetTechDependencyTree_flat [OF tree [unfolded flat]] obtain details uniqueDeps where
    details: "params_ServerDetails params = Inr details"
    and resolver: "SetResolutionRepoIfExists env params (Technology scan)
                     (w\<lparr>cwd := WorkingDirectory scan\<rparr>) = (None, p2)"
    and build: "buildDependencyTree env p2 details (Technology scan)
                  (w\<lparr>cwd := WorkingDirectory scan\<rparr>) = ((full, uniqueDeps, None), w2)"
    and children: "map NodeId (Nodes flatTree) = uniqueDeps"
    and noErr: "techErr = None"
    by blast
  have ids: "NodeId ` set (Nodes flatTree) = set uniqueDeps"
    using children by (metis set_map)
  note keep = GetTechDependencyTree_keeps[OF tree]
  let ?deps = "if shouldUseAllDependencies (thirdPartyApplicabilityScan p2) (Technology scan)
               then getDirectDependenciesFromTree (Set_order env w1) [flatTree]
               else getDirectDependenciesFromTree (Set_order env w1) full"
  have app: "DependenciesForApplicabilityScan params1
             = DependenciesForApplicabilityScan params @ ?deps"
    using p1 keep
    by (simp add: addThirdPartyDependenciesToParams_def AppendDependenciesForApplicabilityScan_def)
  have dist: "distinct ?deps"
    by (simp add: distinct_getDirectDependenciesFromTree)
  have setd: "set ?deps =
             (if Technology scan = Pip
                 \<or> (Technology scan = Npm \<and> thirdPartyApplicabilityScan params)
              then set uniqueDeps
              else (\<Union>tree \<in> set full. NodeId ` set (Nodes tree)))"
    using keep ids by (auto simp: shouldUseAllDependencies_def set_getDirectDependenciesFromTree)
  have whole: "GetTechDependencyTree env params (Technology scan)
                 (w\<lparr>cwd := WorkingDirectory scan\<rparr>) = (Some flatTree, full, None, p2, w2)"
    using tree flat noErr by simp
  show ?thesis
    using details resolver build whole children app dist setd by blast
qed

text \<open>
  The npm unit, whose builder lists two unique dependencies, one of them direct. With
  the third-party flag off the direct one is recorded; with the flag on, both.
\<close>

theorem executeScaScan_applicability_dependencies_witness:
  "executeScaScan demoEnv ''xray.example'' demoParams demoNpmUnit demoWorld
   = (None, demoNpmScanned,
      demoParams\<lparr>DependenciesForApplicabilityScan := [''pkg:a@1'']\<rparr>,
      demoWorld\<lparr>cwd := ''/repo/app''\<rparr>)
   \<and> executeScaScan demoEnv ''xray.example''
       (demoParams\<lparr>thirdPartyApplicabilityScan := True\<rparr>) demoNpmUnit demoWorld
   = (None, demoNpmScanned,
      demoParams\<lparr>thirdPartyApplicabilityScan := True,
                 DependenciesForApplicabilityScan := [''pkg:a@1'', ''pkg:b@2'']\<rparr>,
      demoWorld\<lparr>cwd := ''/repo/app''\<rparr>)
   \<and> buildDependencyTree demoEnv demoParams ''xray.example'' Npm
       (demoWorld\<lparr>cwd := ''/repo/app''\<rparr>)
   = (([demoNpmTree], [''pkg:a@1'', ''pkg:b@2''], None), demoWorld\<lparr>cwd := ''/repo/app''\<rparr>)"
proof -
  have off: "executeScaScan demoEnv ''xray.example'' demoParams demoNpmUnit demoWorld
   = (None, demoNpmScanned,
      demoParams\<lparr>DependenciesForApplicabilityScan := [''pkg:a@1'']\<rparr>,
      demoWorld\<lparr>cwd := ''/repo/app''\<rparr>)"
    by (simp add: demo_defs runner_defs)
  have on: "executeScaScan demoEnv ''xray.example''
       (demoParams\<lparr>thirdPartyApplicabilityScan := True\<rparr>) demoNpmUnit demoWorld
   = (None, demoNpmScanned,
      demoParams\<lparr>thirdPartyApplicabilityScan := True,
                 DependenciesForApplicabilityScan := [''pkg:a@1'', ''pkg:b@2'']\<rparr>,
      demoWorld\<lparr>cwd := ''/repo/app''\<rparr>)"
    by (simp add: demo_defs runner_defs)
  have build: "buildDependencyTree demoEnv demoParams ''xray.example'' Npm
       (demoWorld\<lparr>cwd := ''/repo/app''\<rparr>)
   = (([demoNpmTree], [''pkg:a@1'', ''pkg:b@2''], None), demoWorld\<lparr>cwd := ''/repo/app''\<rparr>)"
    by (simp add: demoEnv_def buildDependencyTree_def)
  show ?thesis
    using off on build
      executeScaScan_applicability_dependencies [OF off]
      executeScaScan_applicability_dependencies [OF on]
    by simp
qed

subsection \<open>The loop\<close>

lemma error_leaves_join:
  "joinedErrors (errors_Join [err, Some (ErrorString s)]) = joinedErrors err @ [ErrorString s]"
  by (cases err) (simp_all add: errors_Join_def joinedErrors_def)

lemma errors_Join_not_None: "errors_Join [err, Some e] \<noteq> None"
  by (cases err) (simp_all add: errors_Join_def)

lemma joinedErrors_join2:
  "joinedErrors (errors_Join [a, b]) = joinedErrors a @ joinedErrors b"
  by (cases a; cases b) (simp_all add: errors_Join_def joinedErrors_def)

lemma errors_Join2_None: "errors_Join [a, b] = None \<longleftrightarrow> a = None \<and> b = None"
  by (cases a; cases b) (simp_all add: errors_Join_def)

lemma unitOutcomes_scheduled:
  "unitOutcomes env sd scans params w = (outcomes, paramsN, wN) \<Longrightarrow> map fst outcomes = scans"
  by (induction scans arbitrary: params w outcomes) (auto split: prod.splits)

lemma failedUnitErrors_empty:
  "failedUnitErrors outcomes = [] \<longleftrightarrow> (\<forall>outcome \<in> set outcomes. fst (snd outcome) = None)"
  by (induction outcomes rule: failedUnitErrors.induct) auto

lemma runScaScan_loop_outcomes:
  assumes "unitOutcomes env sd scans params w = (outcomes, paramsN, wN)"
  shows "\<exists>err1. runScaScan_loop env sd scans (err, results, params, w)
                 = (err1, results @ succeededUnits outcomes, paramsN, wN)
              \<and> joinedErrors err1 = joinedErrors err @ failedUnitErrors outcomes
              \<and> (err1 = None \<longleftrightarrow> err = None \<and> failedUnitErrors outcomes = [])"
  using assms
proof (induction scans arbitrary: err results params w outcomes)
  case Nil
  then show ?case by simp
next
  case (Cons scan scans)
  obtain e scan1 params1 w1 where ex: "executeScaScan env sd params scan w = (e, scan1, params1, w1)"
    by (metis prod_cases4)
  obtain rest where rest: "unitOutcomes env sd scans params1 w1 = (rest, paramsN, wN)"
    and outcomes: "outcomes = (scan, e, scan1) # rest"
    using Cons.prems ex by (auto split: prod.splits)
  show ?case
  proof (cases e)
    case None
    from Cons.IH[OF rest, of err "results @ [scan1]"] show ?thesis
      using ex None outcomes by simp
  next
    case (Some x)
    from Cons.IH[OF rest, of "errors_Join [err, Some (auditFailedError scan x)]" results]
    show ?thesis
      using ex Some outcomes
      by (auto simp: auditFailedError_def error_leaves_join errors_Join_not_None)
  qed
qed

lemma demo_scans:
  "getScaScansToPreform demoEnv ''/repo'' demoParams demoWorld = [demoGoUnit, demoNpmUnit]"
  by (simp add: demo_defs runner_defs)

lemma demo_outcomes:
  "unitOutcomes demoEnv ''xray.example'' [demoGoUnit, demoNpmUnit] demoParams demoWorld
   = ([(demoGoUnit, Some demoGoError, demoGoUnit), (demoNpmUnit, None, demoNpmScanned)],
      demoParams\<lparr>DependenciesForApplicabilityScan := [''pkg:a@1'']\<rparr>,
      demoWorld\<lparr>cwd := ''/repo/app''\<rparr>)"
  by (simp add: demo_defs demoNpmScanned_def demoGoError_def runner_defs msg_defs)

lemma restoreFails_scans:
  "getScaScansToPreform restoreFailsEnv ''/repo'' demoParams demoWorld = [demoNpmUnit]"
  by (simp add: demo_defs runner_defs)

text \<open>
  C1, as the code has it. In a run that reaches the scan loop, every scheduled unit is
  executed, in order, whatever happened to the units before it; the results collection
  gains the units that succeeded and no others; the returned error is made of the error
  of each failed unit, followed by the error of restoring the working directory if that
  failed. It is nil exactly when every unit succeeded and the working directory was
  restored.
\<close>

theorem runScaScan_aggregates:
  assumes getwd: "os_Getwd env w = Inr dir"
    and details: "params_ServerDetails params = Inr serverDetails"
    and scans: "getScaScansToPreform env dir params w = scans" "scans \<noteq> []"
    and json: "GetJsonIndent env scans = Inr scanInfo"
    and units: "unitOutcomes env serverDetails scans params w = (outcomes, paramsN, wN)"
    and run: "runScaScan env params results w = (err, results1, params1, w1)"
  shows "map fst outcomes = scans
       \<and> results1 = results @ succeededUnits outcomes
       \<and> joinedErrors err = failedUnitErrors outcomes @ joinedErrors (Chdir_err env dir wN)
       \<and> (err = None \<longleftrightarrow>
            (\<forall>outcome \<in> set outcomes. fst (snd outcome) = None) \<and> Chdir_err env dir wN = None)"
proof -
  obtain lerr where
    loop: "runScaScan_loop env serverDetails scans (None, results, params, w)
           = (lerr, results @ succeededUnits outcomes, paramsN, wN)"
    and leaves: "joinedErrors lerr = failedUnitErrors outcomes"
    and nil: "lerr = None \<longleftrightarrow> failedUnitErrors outcomes = []"
    using runScaScan_loop_outcomes[OF units, of None results] by (auto simp: joinedErrors_def)
  have ret: "runScaScan env params results w
             = (errors_Join [lerr, Chdir_err env dir wN], results @ succeededUnits outcomes, paramsN,
                snd (os_Chdir env dir wN))"
    using getwd details scans json loop
    by (auto simp: runScaScan_def Let_def os_Chdir_def split: option.splits)
  have e: "err = errors_Join [lerr, Chdir_err env dir wN]"
    and r: "results1 = results @ succeededUnits outcomes"
    using ret run by simp_all
  show ?thesis
    using e r leaves nil unitOutcomes_scheduled[OF units]
    by (simp add: joinedErrors_join2 errors_Join2_None failedUnitErrors_empty)
qed

text \<open>
  The one scheduled unit succeeds and is in the results, yet the returned error is not
  nil: /repo cannot be re-entered.
\<close>

theorem runScaScan_restore_error_counterexample:
  "getScaScansToPreform restoreFailsEnv ''/repo'' demoParams demoWorld = [demoNpmUnit]
   \<and> fst (unitOutcomes restoreFailsEnv ''xray.example'' [demoNpmUnit] demoParams demoWorld)
       = [(demoNpmUnit, None, demoNpmScanned)]
   \<and> runScaScan restoreFailsEnv demoParams [] demoWorld
       = (Some (JoinError [ErrorString ''chdir /repo: permission denied'']), [demoNpmScanned],
          demoParams\<lparr>DependenciesForApplicabilityScan := [''pkg:a@1'']\<rparr>,
          demoWorld\<lparr>cwd := ''/repo/app''\<rparr>)"
  by (simp add: demo_defs demoNpmScanned_def runner_defs)

text \<open>
  The Go unit fails, the npm unit after it is scanned all the same and is the only
  result; the returned error is made of the Go unit's error.
\<close>

theorem runScaScan_aggregates_witness:
  "fst (snd (runScaScan demoEnv demoParams [] demoWorld)) = [demoNpmScanned]
   \<and> joinedErrors (fst (runScaScan demoEnv demoParams [] demoWorld))
       = [auditFailedError demoGoUnit demoGoError]
   \<and> fst (runScaScan demoEnv demoParams [] demoWorld) \<noteq> None"
proof -
  have getwd: "os_Getwd demoEnv demoWorld = Inr ''/repo''"
    by (simp add: demo_defs os_Getwd_def)
  have details: "params_ServerDetails demoParams = Inr ''xray.example''"
    by (simp add: demo_defs)
  have nonempty: "[demoGoUnit, demoNpmUnit] \<noteq> []" by simp
  have json: "GetJsonIndent demoEnv [demoGoUnit, demoNpmUnit] = Inr ''[]''"
    by (simp add: demoEnv_def)
  have run: "runScaScan demoEnv demoParams [] demoWorld
             = (fst (runScaScan demoEnv demoParams [] demoWorld),
                fst (snd (runScaScan demoEnv demoParams [] demoWorld)),
                fst (snd (snd (runScaScan demoEnv demoParams [] demoWorld))),
                snd (snd (snd (runScaScan demoEnv demoParams [] demoWorld))))"
    by simp
  have chdir: "Chdir_err demoEnv ''/repo'' (demoWorld\<lparr>cwd := ''/repo/app''\<rparr>) = None"
    by (simp add: demoEnv_def)
  show ?thesis
    using runScaScan_aggregates [OF getwd details demo_scans nonempty json demo_outcomes run] chdir
    by (simp add: joinedErrors_def)
qed

text \<open>
  C2, as the code has it. In a run that reaches the scan loop, whatever the outcomes of
  the units, the directory captured before the loop is re-entered after it. When that
  \<open>os.Chdir\<close> succeeds, the working directory after the run is the one the run started
  in; when it fails, the working directory stays where the last unit left it and the
  failure is the last member of the returned join.
\<close>

theorem runScaScan_restores_working_directory:
  assumes getwd: "os_Getwd env w = Inr dir"
    and details: "params_ServerDetails params = Inr serverDetails"
    and scans: "getScaScansToPreform env dir params w = scans" "scans \<noteq> []"
    and json: "GetJsonIndent env scans = Inr scanInfo"
    and units: "unitOutcomes env serverDetails scans params w = (outcomes, paramsN, wN)"
    and run: "runScaScan env params results w = (err, results1, params1, w1)"
  shows "(Chdir_err env dir wN = None \<longrightarrow> cwd w1 = cwd w)
       \<and> (\<forall>e. Chdir_err env dir wN = Some e \<longrightarrow>
              cwd w1 = cwd wN \<and> (\<exists>es. err = Some (JoinError (es @ [e]))))"
proof -
  obtain lerr where
    loop: "runScaScan_loop env serverDetails scans (None, results, params, w)
           = (lerr, results @ succeededUnits outcomes, paramsN, wN)"
    using runScaScan_loop_outcomes[OF units, of None results] by auto
  have ret: "runScaScan env params results w
             = (errors_Join [lerr, Chdir_err env dir wN], results @ succeededUnits outcomes, paramsN,
                snd (os_Chdir env dir wN))"
    using getwd details scans json loop
    by (auto simp: runScaScan_def Let_def os_Chdir_def split: option.splits)
  have dir: "dir = cwd w"
    using getwd by (auto simp: os_Getwd_def split: option.splits)
  have e: "err = errors_Join [lerr, Chdir_err env dir wN]" and w1: "w1 = snd (os_Chdir env dir wN)"
    using ret run by simp_all
  have ok: "Chdir_err env dir wN = None \<Longrightarrow> cwd w1 = cwd w"
    using w1 dir by (simp add: os_Chdir_def)
  have left: "\<And>x. Chdir_err env dir wN = Some x \<Longrightarrow> cwd w1 = cwd wN"
    using w1 by (simp add: os_Chdir_def)
  have failed: "\<And>x. Chdir_err env dir wN = Some x \<Longrightarrow> \<exists>es. err = Some (JoinError (es @ [x]))"
  proof -
    fix x assume x: "Chdir_err env dir wN = Some x"
    show "\<exists>es. err = Some (JoinError (es @ [x]))"
    proof (cases lerr)
      case None
      then have "err = Some (JoinError ([] @ [x]))" using e x by (simp add: errors_Join_def)
      then show ?thesis by blast
    next
      case (Some l)
      then have "err = Some (JoinError ([l] @ [x]))" using e x by (simp add: errors_Join_def)
      then show ?thesis by blast
    qed
  qed
  show ?thesis using ok left failed by blast
qed

text \<open>
  The only unit fails and /repo cannot be re-entered: the run started in /repo and ends
  in /repo/svc.
\<close>

theorem runScaScan_not_restored_counterexample:
  "os_Getwd goOnlyRestoreFailsEnv demoWorld = Inr ''/repo''
   \<and> getScaScansToPreform goOnlyRestoreFailsEnv ''/repo'' demoParams demoWorld = [demoGoUnit]
   \<and> GetJsonIndent goOnlyRestoreFailsEnv [demoGoUnit] = Inr ''[]''
   \<and> cwd demoWorld = ''/repo''
   \<and> cwd (snd (snd (snd (runScaScan goOnlyRestoreFailsEnv demoParams [] demoWorld))))
       = ''/repo/svc''"
  by (simp add: demo_defs runner_defs)

text \<open>
  In the project as it is the run ends in /repo, where it started; when /repo cannot be
  re-entered the returned error ends with that failure.
\<close>

theorem runScaScan_restores_working_directory_witness:
  "cwd (snd (snd (snd (runScaScan demoEnv demoParams [] demoWorld)))) = cwd demoWorld
   \<and> (\<exists>es. fst (runScaScan restoreFailsEnv demoParams [] demoWorld)
             = Some (JoinError (es @ [ErrorString ''chdir /repo: permission denied''])))"
proof -
  have getwd: "os_Getwd demoEnv demoWorld = Inr ''/repo''"
    by (simp add: demo_defs os_Getwd_def)
  have details: "params_ServerDetails demoParams = Inr ''xray.example''"
    by (simp add: demo_defs)
  have nonempty: "[demoGoUnit, demoNpmUnit] \<noteq> []" by simp
  have json: "GetJsonIndent demoEnv [demoGoUnit, demoNpmUnit] = Inr ''[]''"
    by (simp add: demoEnv_def)
  have run: "runScaScan demoEnv demoParams [] demoWorld
             = (fst (runScaScan demoEnv demoParams [] demoWorld),
                fst (snd (runScaScan demoEnv demoParams [] demoWorld)),
                fst (snd (snd (runScaScan demoEnv demoParams [] demoWorld))),
                snd (snd (snd (runScaScan demoEnv demoParams [] demoWorld))))"
    by simp
  have chdir: "Chdir_err demoEnv ''/repo'' (demoWorld\<lparr>cwd := ''/repo/app''\<rparr>) = None"
    by (simp add: demoEnv_def)
  have getwd': "os_Getwd restoreFailsEnv demoWorld = Inr ''/repo''"
    by (simp add: demo_defs os_Getwd_def)
  have nonempty': "[demoNpmUnit] \<noteq> []" by simp
  have json': "GetJsonIndent restoreFailsEnv [demoNpmUnit] = Inr ''[]''"
    by (simp add: demo_defs)
  have outcomes': "unitOutcomes restoreFailsEnv ''xray.example'' [demoNpmUnit] demoParams demoWorld
     = ([(demoNpmUnit, None, demoNpmScanned)],
        demoParams\<lparr>DependenciesForApplicabilityScan := [''pkg:a@1'']\<rparr>,
        demoWorld\<lparr>cwd := ''/repo/app''\<rparr>)"
    by (simp add: demo_defs demoNpmScanned_def runner_defs)
  have run': "runScaScan restoreFailsEnv demoParams [] demoWorld
             = (fst (runScaScan restoreFailsEnv demoParams [] demoWorld),
                fst (snd (runScaScan restoreFailsEnv demoParams [] demoWorld)),
                fst (snd (snd (runScaScan restoreFailsEnv demoParams [] demoWorld))),
                snd (snd (snd (runScaScan restoreFailsEnv demoParams [] demoWorld))))"
    by simp
  have chdir': "Chdir_err restoreFailsEnv ''/repo'' (demoWorld\<lparr>cwd := ''/repo/app''\<rparr>)
                = Some (ErrorString ''chdir /repo: permission denied'')"
    by (simp add: demo_defs)
  show ?thesis
    using runScaScan_restores_working_directory
            [OF getwd details demo_scans nonempty json demo_outcomes run] chdir
          runScaScan_restores_working_directory
            [OF getwd' details restoreFails_scans nonempty' json' outcomes' run'] chdir'
    by simp
qed

end
